theory Spec2Isabelle
  imports Main "HOL-Library.Word"
begin

unbundle bit_operations_syntax

section \<open>Data of the light-server protocol\<close>

text \<open>
  The proxy of \<^verbatim>\<open>internal/server/server.go\<close>. Go's \<^verbatim>\<open>[]byte\<close> is a list of
  8-bit words, \<^verbatim>\<open>uint32\<close>/\<^verbatim>\<open>int32\<close> are 32-bit words (a conversion between the two
  keeps the bits), a pointer that may be nil is an option.
\<close>

type_synonym bytes = "8 word list"

text \<open>\<^verbatim>\<open>ton.LSError{Code, Text}\<close>, the protocol's typed error reply.\<close>

record LSError =
  Code :: int
  Text :: string

text \<open>
  A Go \<^verbatim>\<open>error\<close> value: either one whose dynamic type is \<^verbatim>\<open>ton.LSError\<close> (the type
  assertion \<^verbatim>\<open>err.(ton.LSError)\<close> succeeds) or any other error, kept by its message.
\<close>

datatype error = ELSError LSError | EOther string

definition HitTypeEmulated :: string where
  "HitTypeEmulated = ''emulated''"

definition HitTypeBackend :: string where
  "HitTypeBackend = ''backend''"

definition HitTypeCache :: string where
  "HitTypeCache = ''cache''"

definition HitTypeFailedValidate :: string where
  "HitTypeFailedValidate = ''failed_validate''"

definition HitTypeFailedInternal :: string where
  "HitTypeFailedInternal = ''failed_internal''"

subsection \<open>Cells\<close>

text \<open>
  A cell of the external cell library: its type as \<^verbatim>\<open>GetType()\<close> reports it, its data
  bits and its references (\<^verbatim>\<open>RefsNum()\<close> is the length of \<open>refs\<close>,
  \<^verbatim>\<open>MustPeekRef(i)\<close> the i-th of them).
\<close>

datatype cell_type =
  OrdinaryCellType | PrunedCellType | LibraryCellType
  | MerkleProofCellType | MerkleUpdateCellType | UnknownCellType

datatype cell = Cell (GetType: cell_type) (bits: "bool list") (refs: "cell list")

text \<open>
  A slice read from the front. \<^verbatim>\<open>MustLoadSlice(sz)\<close> panics (\<open>None\<close>) when fewer
  than \<open>sz\<close> bits are left; otherwise it returns the bits packed into bytes, most
  significant bit first, the last byte padded with zero bits, and the rest of the slice.
\<close>

definition byte_of_bits :: "bool list \<Rightarrow> 8 word" where
  "byte_of_bits bs = horner_sum of_bool 2 (rev bs)"

fun pack_bits :: "bool list \<Rightarrow> bytes" where
  "pack_bits [] = []"
| "pack_bits (b # bs) =
     byte_of_bits (take 8 (b # bs) @ replicate (8 - length (take 8 (b # bs))) False)
       # pack_bits (drop 7 bs)"

definition MustLoadSlice :: "nat \<Rightarrow> bool list \<Rightarrow> (bytes \<times> bool list) option" where
  "MustLoadSlice sz slc =
     (if length slc < sz then None else Some (pack_bits (take sz slc), drop sz slc))"

text \<open>
  The loop \<^verbatim>\<open>res = append(res, findLibs(ref)...)\<close> over the references, left to
  right; a panic in a recursive call ends it.
\<close>

fun append_all :: "bytes list \<Rightarrow> bytes list option list \<Rightarrow> bytes list option" where
  "append_all res [] = Some res"
| "append_all res (None # rs) = None"
| "append_all res (Some r # rs) = append_all (res @ r) rs"

fun findLibs :: "cell \<Rightarrow> bytes list option" where
  "findLibs (Cell t bs rs) =
     (if length rs = 0 \<and> t = LibraryCellType then
        (case MustLoadSlice 8 bs of
           None \<Rightarrow> None
         | Some (tag, slc) \<Rightarrow>
             (case MustLoadSlice 256 slc of
                None \<Rightarrow> None
              | Some (h, rest) \<Rightarrow> Some [h]))
      else append_all [] (map findLibs rs))"

subsection \<open>Records of the protocol\<close>

record BlockIDExt =
  Workchain :: "32 word"
  Shard :: "64 word"
  SeqNo :: "32 word"
  RootHash :: bytes
  FileHash :: bytes

record ZeroStateIDExt =
  zs_Workchain :: "32 word"
  zs_RootHash :: bytes
  zs_FileHash :: bytes

text \<open>\<^verbatim>\<open>ton.AccountID{Workchain int32, ID []byte}\<close>.\<close>

record AccountID =
  acc_Workchain :: "32 word"
  acc_ID :: bytes

text \<open>\<^verbatim>\<open>address.NewAddress(flags byte, workchain byte, data []byte)\<close>.\<close>

record Address =
  addr_flags :: "8 word"
  addr_workchain :: "8 word"
  addr_data :: bytes

definition NewAddress :: "8 word \<Rightarrow> 8 word \<Rightarrow> bytes \<Rightarrow> Address" where
  "NewAddress f w d = \<lparr>addr_flags = f, addr_workchain = w, addr_data = d\<rparr>"

text \<open>A \<^verbatim>\<open>*cell.Dictionary\<close>: its key size and root cell.\<close>

datatype Dictionary = Dictionary (keySz: nat) (root: "cell option")

text \<open>
  Modelled from the spec: the type \<^verbatim>\<open>MasterBlock\<close> of this package is declared in a
  file that is not among the sources; the spec gives it a block id, a generation time,
  a state hash and the configuration at that block, the fields this file reads
  (\<^verbatim>\<open>Block.ID\<close>, \<^verbatim>\<open>GenTime\<close>, \<^verbatim>\<open>StateHash\<close>, \<^verbatim>\<open>Config\<close>).
\<close>

record MasterBlock =
  mb_Block_ID :: BlockIDExt
  mb_GenTime :: "32 word"
  mb_StateHash :: bytes
  mb_Config :: Dictionary

text \<open>\<^verbatim>\<open>ton.AccountState\<close>, what the cache returns for an account at a master block.\<close>

record AccountState =
  as_ID :: BlockIDExt
  as_Shard :: BlockIDExt
  as_ShardProof :: "cell list"
  as_Proof :: "cell list"
  as_State :: "cell option"

text \<open>
  \<^verbatim>\<open>tlb.AccountState\<close> after \<^verbatim>\<open>LoadFromCell\<close>, as far as this file reads it: the
  \<^verbatim>\<open>StateInit\<close> pointer (set when the account is active) with its code and data, and
  the balance in nano units.
\<close>

record StateInit =
  si_Code :: "cell option"
  si_Data :: "cell option"

record tlb_AccountState =
  st_StateInit :: "StateInit option"
  st_Balance :: int

record BlockData =
  bd_ID :: BlockIDExt
  bd_Payload :: bytes

record TransactionInfo =
  ti_ID :: BlockIDExt
  ti_Proof :: bytes
  ti_Transaction :: bytes

record LibraryEntry =
  le_Hash :: bytes
  le_Data :: cell

record RunSmcMethod =
  rsm_Mode :: "32 word"
  rsm_ID :: BlockIDExt
  rsm_Account :: AccountID
  rsm_MethodID :: "64 word"
  rsm_Params :: "cell option"

record RunMethodParams =
  rp_Code :: "cell option"
  rp_Data :: "cell option"
  rp_Address :: Address
  rp_Stack :: "cell option"
  rp_Balance :: int
  rp_Libs :: Dictionary
  rp_Config :: Dictionary
  rp_Time :: int

record RunResult =
  res_ExitCode :: "32 word"
  res_Stack :: "cell option"

record RunMethodResult =
  rmr_Mode :: "32 word"
  rmr_ID :: BlockIDExt
  rmr_ShardBlock :: BlockIDExt
  rmr_ShardProof :: "cell list"
  rmr_Proof :: "cell list"
  rmr_StateProof :: "cell option"
  rmr_InitC7 :: "cell option"
  rmr_LibExtras :: "cell option"
  rmr_ExitCode :: "32 word"
  rmr_Result :: "cell option"

record Version =
  ver_Mode :: "32 word"
  ver_Version :: "32 word"
  ver_Capabilities :: "64 word"
  ver_Now :: "32 word"

record MasterchainInfoExt =
  mie_Mode :: "32 word"
  mie_Version :: "32 word"
  mie_Capabilities :: "64 word"
  mie_Last :: BlockIDExt
  mie_LastUTime :: "32 word"
  mie_Now :: "32 word"
  mie_StateRootHash :: bytes
  mie_Init :: ZeroStateIDExt

record MasterchainInfo =
  mi_Last :: BlockIDExt
  mi_StateRootHash :: bytes
  mi_Init :: ZeroStateIDExt

text \<open>
  The queries the dispatcher switches on. The queries it only forwards carry their
  serialized body; \<open>QOther\<close> is any other type, by its name.
\<close>

datatype query =
    QList "query list"
  | QWaitMasterchainSeqno "32 word" "32 word"
  | QGetVersion
  | QGetTime
  | QGetMasterchainInfoExt "32 word"
  | QGetMasterchainInf
  | QGetLibraries "bytes list"
  | QGetOneTransaction BlockIDExt AccountID "64 word"
  | QGetBlockData BlockIDExt
  | QGetAccountState BlockIDExt AccountID
  | QRunSmcMethod RunSmcMethod
  | QGetConfigAll bytes
  | QGetBlockProof bytes
  | QGetConfigParams bytes
  | QGetBlockHeader bytes
  | QLookupBlock bytes
  | QGetAllShardsInfo bytes
  | QListBlockTransactions bytes
  | QListBlockTransactionsExt bytes
  | QOther string bytes

text \<open>What is sent back as the \<^verbatim>\<open>Data\<close> of a \<^verbatim>\<open>MessageAnswer\<close>.\<close>

datatype response =
    RLSError LSError
  | RVersion Version
  | RCurrentTime "32 word"
  | RMasterchainInfoExt MasterchainInfoExt
  | RMasterchainInfo MasterchainInfo
  | RLibraryResult "LibraryEntry list"
  | RTransactionInfo TransactionInfo
  | RBlockData BlockData
  | RAccountState AccountState
  | RRunMethodResult RunMethodResult
  | RBackend string bytes

section \<open>The collaborators\<close>

text \<open>
  The handlers call the cache (the interface \<^verbatim>\<open>Cache\<close>), the emulator, the backend
  client and the cell library. None of them is in this file, so each is a function the
  handlers are given: the value returned, the \<^verbatim>\<open>was_cached\<close> flag where the interface
  has one, or the error. \<open>Now\<close> is \<^verbatim>\<open>time.Now().Unix()\<close>, \<open>LSError_Error\<close> the text
  \<^verbatim>\<open>Error()\<close> gives for an \<^verbatim>\<open>LSError\<close>, \<open>ErrCodeContractNotInitialized\<close> the
  constant of that name, \<open>CreateProof\<close> is \<^verbatim>\<open>CreateProof(cell.CreateProofSkeleton())\<close>,
  which yields a proof cell when it returns no error. \<open>LoadAll\<close> gives a dictionary's
  entries as key bits and value cell.
\<close>

record env =
  cache_GetTransaction :: "BlockIDExt \<Rightarrow> AccountID \<Rightarrow> 64 word \<Rightarrow> error + (TransactionInfo \<times> bool)"
  cache_GetLibraries :: "bytes list \<Rightarrow> error + (Dictionary \<times> bool)"
  cache_WaitMasterBlock :: "32 word \<Rightarrow> 32 word \<Rightarrow> error option"
  cache_GetZeroState :: "error + ZeroStateIDExt"
  cache_GetMasterBlock :: "BlockIDExt \<Rightarrow> error + (MasterBlock \<times> bool)"
  cache_GetLastMasterBlock :: "error + (MasterBlock \<times> bool)"
  cache_GetBlock :: "BlockIDExt \<Rightarrow> error + (BlockData \<times> bool)"
  cache_GetAccountState :: "MasterBlock \<Rightarrow> Address \<Rightarrow> error + (AccountState \<times> bool)"
  RunGetMethod :: "32 word \<Rightarrow> RunMethodParams \<Rightarrow> bool \<Rightarrow> nat \<Rightarrow> error + RunResult"
  QueryLiteserver :: "query \<Rightarrow> error + response"
  LoadFromCell :: "cell \<Rightarrow> error + tlb_AccountState"
  CreateProof :: "cell \<Rightarrow> error + cell"
  LoadAll :: "Dictionary \<Rightarrow> error + (bool list \<times> cell) list"
  Now :: int
  LSError_Error :: "LSError \<Rightarrow> string"
  ErrCodeContractNotInitialized :: int

definition Error :: "env \<Rightarrow> error \<Rightarrow> string" where
  "Error env err = (case err of ELSError ls \<Rightarrow> LSError_Error env ls | EOther m \<Rightarrow> m)"

text \<open>
  Every call of the cache, the emulator and the backend is logged with the error it
  returned, in the order of the calls, so that a theorem can say which of them a
  request reached.
\<close>

datatype collaborator =
    CacheGetTransaction | CacheGetLibraries | CacheWaitMasterBlock | CacheGetZeroState
  | CacheGetMasterBlock | CacheGetLastMasterBlock | CacheGetBlock | CacheGetAccountState
  | EmulatorRunGetMethod | BackendQueryLiteserver

type_synonym call = "collaborator \<times> error option"

section \<open>The handlers of the dispatcher\<close>

text \<open>
  A handler returns the response and the hit class, as in the source, and the log of
  its calls. \<open>None\<close> is a panic of the Go code (a nil dereference or a \<^verbatim>\<open>Must\<close>
  function that fails). Logging and the other metrics are left out.
\<close>

type_synonym handled = "(response \<times> string \<times> call list) option"

definition handleRunSmcMethod :: "env \<Rightarrow> RunSmcMethod \<Rightarrow> handled" where
  "handleRunSmcMethod env v =
    (case cache_GetMasterBlock env (rsm_ID v) of
       Inl err \<Rightarrow>
         (case err of
            ELSError ls \<Rightarrow>
              Some (RLSError ls, HitTypeFailedValidate, [(CacheGetMasterBlock, Some err)])
          | EOther m \<Rightarrow>
              Some (RLSError \<lparr>Code = 500, Text = ''failed to resolve master block''\<rparr>,
                    HitTypeFailedInternal, [(CacheGetMasterBlock, Some err)]))
     | Inr (block, cachedMaster) \<Rightarrow>
        (let addr = NewAddress 0 (ucast (acc_Workchain (rsm_Account v))) (acc_ID (rsm_Account v));
             c1 = [(CacheGetMasterBlock, None)]
         in case cache_GetAccountState env block addr of
           Inl err \<Rightarrow>
             (case err of
                ELSError ls \<Rightarrow>
                  Some (RLSError ls, HitTypeFailedValidate, c1 @ [(CacheGetAccountState, Some err)])
              | EOther m \<Rightarrow>
                  Some (RLSError \<lparr>Code = 500, Text = ''failed to get account state''\<rparr>,
                        HitTypeFailedInternal, c1 @ [(CacheGetAccountState, Some err)]))
         | Inr (state, cachedState) \<Rightarrow>
            (let c2 = c1 @ [(CacheGetAccountState, None)]
             in case as_State state of
               None \<Rightarrow>
                 Some (RLSError \<lparr>Code = ErrCodeContractNotInitialized env,
                                 Text = ''contract is not initialized''\<rparr>,
                       HitTypeFailedValidate, c2)
             | Some stateCell \<Rightarrow>
                (case LoadFromCell env stateCell of
                   Inl err \<Rightarrow>
                     Some (RLSError \<lparr>Code = 500,
                                     Text = ''failed to parse account state: '' @ Error env err\<rparr>,
                           HitTypeFailedInternal, c2)
                 | Inr st \<Rightarrow>
                    (case st_StateInit st of
                       None \<Rightarrow> None
                     | Some si \<Rightarrow>
                        (case si_Code si of
                           None \<Rightarrow> None
                         | Some code \<Rightarrow>
                            (case findLibs code of
                               None \<Rightarrow> None
                             | Some hashes \<Rightarrow>
                                (case cache_GetLibraries env hashes of
                                   Inl err \<Rightarrow>
                                     (case err of
                                        ELSError ls \<Rightarrow>
                                          Some (RLSError ls, HitTypeFailedValidate,
                                                c2 @ [(CacheGetLibraries, Some err)])
                                      | EOther m \<Rightarrow>
                                          Some (RLSError \<lparr>Code = 500,
                                                  Text = ''failed resolve libraries: '' @ Error env err\<rparr>,
                                                HitTypeFailedInternal,
                                                c2 @ [(CacheGetLibraries, Some err)]))
                                 | Inr (libsCodes, cachedLibs) \<Rightarrow>
                                    (let c3 = c2 @ [(CacheGetLibraries, None)]
                                     in case RunGetMethod env (ucast (rsm_MethodID v))
                                          \<lparr>rp_Code = si_Code si, rp_Data = si_Data si,
                                           rp_Address = addr, rp_Stack = rsm_Params v,
                                           rp_Balance = st_Balance st, rp_Libs = libsCodes,
                                           rp_Config = mb_Config block, rp_Time = Now env\<rparr>
                                          False 1000000 of
                                       Inl err \<Rightarrow>
                                         Some (RLSError \<lparr>Code = 500,
                                                 Text = ''failed to emulate run method: '' @ Error env err\<rparr>,
                                               HitTypeFailedInternal,
                                               c3 @ [(EmulatorRunGetMethod, Some err)])
                                     | Inr res \<Rightarrow>
                                        (let c4 = c3 @ [(EmulatorRunGetMethod, None)];
                                             c7 = None
                                         in if rsm_Mode v AND 8 \<noteq> 0 then
                                              Some (RLSError \<lparr>Code = 403,
                                                      Text = ''c7 return is currently not supported''\<rparr>,
                                                    HitTypeFailedValidate @ ''_want_c7'', c4)
                                            else
                                              (case (if rsm_Mode v AND 2 \<noteq> 0
                                                     then map_sum id Some (CreateProof env stateCell)
                                                     else Inr None) of
                                                 Inl err \<Rightarrow>
                                                   Some (RLSError \<lparr>Code = 500,
                                                           Text = ''failed to prepare state proof args: ''
                                                                    @ Error env err\<rparr>,
                                                         HitTypeFailedInternal, c4)
                                               | Inr stateProof \<Rightarrow>
                                                  (let hit =
                                                     (if cachedMaster \<and> cachedLibs
                                                      then (if cachedState then HitTypeCache
                                                            else HitTypeEmulated)
                                                      else HitTypeBackend)
                                                   in Some (RRunMethodResult
                                                        \<lparr>rmr_Mode = rsm_Mode v,
                                                         rmr_ID = rsm_ID v,
                                                         rmr_ShardBlock = as_Shard state,
                                                         rmr_ShardProof = as_ShardProof state,
                                                         rmr_Proof = as_Proof state,
                                                         rmr_StateProof = stateProof,
                                                         rmr_InitC7 = c7,
                                                         rmr_LibExtras = None,
                                                         rmr_ExitCode = res_ExitCode res,
                                                         rmr_Result = res_Stack res\<rparr>,
                                                        hit, c4)))))))))))))"

definition handleGetMasterchainInfoExt :: "env \<Rightarrow> 32 word \<Rightarrow> handled" where
  "handleGetMasterchainInfoExt env v_Mode =
    (if v_Mode \<noteq> 0 then
       Some (RLSError \<lparr>Code = 400, Text = ''non zero mode is not supported''\<rparr>,
             HitTypeFailedValidate, [])
     else
       (case cache_GetLastMasterBlock env of
          Inl err \<Rightarrow>
            (case err of
               ELSError ls \<Rightarrow>
                 Some (RLSError ls, HitTypeFailedInternal, [(CacheGetLastMasterBlock, Some err)])
             | EOther m \<Rightarrow>
                 Some (RLSError \<lparr>Code = 500, Text = ''failed to resolve master block''\<rparr>,
                       HitTypeFailedInternal, [(CacheGetLastMasterBlock, Some err)]))
        | Inr (block, cached) \<Rightarrow>
           (case cache_GetZeroState env of
              Inl err \<Rightarrow>
                Some (RLSError \<lparr>Code = 500, Text = ''failed to resolve zero state''\<rparr>,
                      HitTypeFailedInternal,
                      [(CacheGetLastMasterBlock, None), (CacheGetZeroState, Some err)])
            | Inr zero \<Rightarrow>
               (let hit = (if cached then HitTypeCache else HitTypeBackend)
                in Some (RMasterchainInfoExt
                     \<lparr>mie_Mode = v_Mode, mie_Version = 0x101, mie_Capabilities = 7,
                      mie_Last = mb_Block_ID block, mie_LastUTime = mb_GenTime block,
                      mie_Now = word_of_int (Now env),
                      mie_StateRootHash = mb_StateHash block, mie_Init = zero\<rparr>,
                     hit, [(CacheGetLastMasterBlock, None), (CacheGetZeroState, None)])))))"

definition handleGetMasterchainInfo :: "env \<Rightarrow> handled" where
  "handleGetMasterchainInfo env =
    (case cache_GetLastMasterBlock env of
       Inl err \<Rightarrow>
         (case err of
            ELSError ls \<Rightarrow>
              Some (RLSError ls, HitTypeFailedInternal, [(CacheGetLastMasterBlock, Some err)])
          | EOther m \<Rightarrow>
              Some (RLSError \<lparr>Code = 500, Text = ''failed to resolve master block''\<rparr>,
                    HitTypeFailedInternal, [(CacheGetLastMasterBlock, Some err)]))
     | Inr (block, cached) \<Rightarrow>
        (case cache_GetZeroState env of
           Inl err \<Rightarrow>
             Some (RLSError \<lparr>Code = 500, Text = ''failed to resolve zero state''\<rparr>,
                   HitTypeFailedInternal,
                   [(CacheGetLastMasterBlock, None), (CacheGetZeroState, Some err)])
         | Inr zero \<Rightarrow>
            (let hit = (if cached then HitTypeCache else HitTypeBackend)
             in Some (RMasterchainInfo
                  \<lparr>mi_Last = mb_Block_ID block, mi_StateRootHash = mb_StateHash block,
                   mi_Init = zero\<rparr>,
                  hit, [(CacheGetLastMasterBlock, None), (CacheGetZeroState, None)]))))"

text \<open>
  The loop of \<^verbatim>\<open>handleGetLibraries\<close> over the loaded entries:
  \<^verbatim>\<open>kv.Key.MustLoadSlice(256)\<close> panics on a key of fewer than 256 bits.
\<close>

fun library_entries :: "(bool list \<times> cell) list \<Rightarrow> LibraryEntry list option" where
  "library_entries [] = Some []"
| "library_entries ((k, c) # kvs) =
     (case MustLoadSlice 256 k of
        None \<Rightarrow> None
      | Some (h, rest) \<Rightarrow>
          (case library_entries kvs of
             None \<Rightarrow> None
           | Some es \<Rightarrow> Some (\<lparr>le_Hash = h, le_Data = c\<rparr> # es)))"

definition handleGetLibraries :: "env \<Rightarrow> bytes list \<Rightarrow> handled" where
  "handleGetLibraries env v_LibraryList =
    (case cache_GetLibraries env v_LibraryList of
       Inl err \<Rightarrow>
         (case err of
            ELSError ls \<Rightarrow>
              Some (RLSError ls, HitTypeFailedValidate, [(CacheGetLibraries, Some err)])
          | EOther m \<Rightarrow>
              Some (RLSError \<lparr>Code = 500, Text = ''failed to get libraries''\<rparr>,
                    HitTypeFailedInternal, [(CacheGetLibraries, Some err)]))
     | Inr (libs, cached) \<Rightarrow>
        (case LoadAll env libs of
           Inl err \<Rightarrow>
             Some (RLSError \<lparr>Code = 500, Text = ''failed to load libraries''\<rparr>,
                   HitTypeFailedInternal, [(CacheGetLibraries, None)])
         | Inr all \<Rightarrow>
            (case library_entries all of
               None \<Rightarrow> None
             | Some libsRes \<Rightarrow>
                (let hit = (if cached then HitTypeCache else HitTypeBackend)
                 in Some (RLibraryResult libsRes, hit, [(CacheGetLibraries, None)])))))"

definition handleGetBlock :: "env \<Rightarrow> BlockIDExt \<Rightarrow> handled" where
  "handleGetBlock env v_ID =
    (case cache_GetBlock env v_ID of
       Inl err \<Rightarrow>
         (case err of
            ELSError ls \<Rightarrow>
              Some (RLSError ls, HitTypeFailedValidate, [(CacheGetBlock, Some err)])
          | EOther m \<Rightarrow>
              Some (RLSError \<lparr>Code = 500, Text = ''failed to get block''\<rparr>,
                    HitTypeFailedInternal, [(CacheGetBlock, Some err)]))
     | Inr (data, cached) \<Rightarrow>
        (if cached then Some (RBlockData data, HitTypeCache, [(CacheGetBlock, None)])
         else Some (RBlockData data, HitTypeBackend, [(CacheGetBlock, None)])))"

definition handleGetTransaction :: "env \<Rightarrow> BlockIDExt \<Rightarrow> AccountID \<Rightarrow> 64 word \<Rightarrow> handled" where
  "handleGetTransaction env v_ID v_AccID v_LT =
    (case cache_GetTransaction env v_ID v_AccID v_LT of
       Inl err \<Rightarrow>
         (case err of
            ELSError ls \<Rightarrow>
              Some (RLSError ls, HitTypeFailedValidate, [(CacheGetTransaction, Some err)])
          | EOther m \<Rightarrow>
              Some (RLSError \<lparr>Code = 500, Text = ''failed to get transaction''\<rparr>,
                    HitTypeFailedInternal, [(CacheGetTransaction, Some err)]))
     | Inr (data, cached) \<Rightarrow>
        (if cached then Some (RTransactionInfo data, HitTypeEmulated, [(CacheGetTransaction, None)])
         else Some (RTransactionInfo data, HitTypeBackend, [(CacheGetTransaction, None)])))"

definition handleGetAccount :: "env \<Rightarrow> BlockIDExt \<Rightarrow> AccountID \<Rightarrow> handled" where
  "handleGetAccount env v_ID v_Account =
    (case cache_GetMasterBlock env v_ID of
       Inl err \<Rightarrow>
         (case err of
            ELSError ls \<Rightarrow>
              Some (RLSError ls, HitTypeFailedValidate, [(CacheGetMasterBlock, Some err)])
          | EOther m \<Rightarrow>
              Some (RLSError \<lparr>Code = 500, Text = ''failed to resolve master block''\<rparr>,
                    HitTypeFailedInternal, [(CacheGetMasterBlock, Some err)]))
     | Inr (block, cachedBlock) \<Rightarrow>
        (case cache_GetAccountState env block
                (NewAddress 0 (ucast (acc_Workchain v_Account)) (acc_ID v_Account)) of
           Inl err \<Rightarrow>
             (case err of
                ELSError ls \<Rightarrow>
                  Some (RLSError ls, HitTypeFailedValidate,
                        [(CacheGetMasterBlock, None), (CacheGetAccountState, Some err)])
              | EOther m \<Rightarrow>
                  Some (RLSError \<lparr>Code = 500, Text = ''failed to get account state''\<rparr>,
                        HitTypeFailedInternal,
                        [(CacheGetMasterBlock, None), (CacheGetAccountState, Some err)]))
         | Inr (state, cachedState) \<Rightarrow>
            (if cachedState \<and> cachedBlock then
               Some (RAccountState state, HitTypeCache,
                     [(CacheGetMasterBlock, None), (CacheGetAccountState, None)])
             else
               Some (RAccountState state, HitTypeBackend,
                     [(CacheGetMasterBlock, None), (CacheGetAccountState, None)]))))"

section \<open>The task of one query\<close>

text \<open>
  The closure \<^verbatim>\<open>go func() { ... }()\<close> of \<^verbatim>\<open>handleRequest\<close>, in its three steps.
  First the compound form \<^verbatim>\<open>[WaitMasterchainSeqno, inner]\<close>: it answers and returns,
  returns without answering, or goes on with the inner query.
\<close>

datatype waited =
    Replied response "call list"
  | Dropped "call list"
  | Proceed query "call list"

definition wait_master :: "env \<Rightarrow> query \<Rightarrow> waited" where
  "wait_master env q_Data =
    (case q_Data of
       QList v \<Rightarrow>
         (if length v \<noteq> 2 then
            Replied (RLSError \<lparr>Code = 400, Text = ''unexpected len of queries''\<rparr>) []
          else
            (case v ! 0 of
               QWaitMasterchainSeqno wt_Seqno wt_Timeout \<Rightarrow>
                 (case cache_WaitMasterBlock env wt_Seqno wt_Timeout of
                    Some err \<Rightarrow>
                      (case err of
                         ELSError ls \<Rightarrow> Replied (RLSError ls) [(CacheWaitMasterBlock, Some err)]
                       | EOther m \<Rightarrow> Dropped [(CacheWaitMasterBlock, Some err)])
                  | None \<Rightarrow> Proceed (v ! 1) [(CacheWaitMasterBlock, None)])
             | _ \<Rightarrow>
                 Replied (RLSError \<lparr>Code = 400, Text = ''unexpected first query type''\<rparr>) []))
     | _ \<Rightarrow> Proceed q_Data [])"

text \<open>
  The switch over the type of the query. \<open>hitType\<close> starts as \<^verbatim>\<open>HitTypeBackend\<close> and
  \<open>resp\<close> as nil (\<open>None\<close>); the types with an empty case leave both as they are.
\<close>

definition with_resp :: "handled \<Rightarrow> (response option \<times> string \<times> call list) option" where
  "with_resp h = (case h of None \<Rightarrow> None | Some (r, hit, cs) \<Rightarrow> Some (Some r, hit, cs))"

definition dispatch :: "env \<Rightarrow> query \<Rightarrow> (response option \<times> string \<times> call list) option" where
  "dispatch env q_Data =
    (case q_Data of
       QGetVersion \<Rightarrow>
         Some (Some (RVersion \<lparr>ver_Mode = 0, ver_Version = 0x101, ver_Capabilities = 7,
                               ver_Now = word_of_int (Now env)\<rparr>), HitTypeEmulated, [])
     | QGetTime \<Rightarrow> Some (Some (RCurrentTime (word_of_int (Now env))), HitTypeEmulated, [])
     | QGetMasterchainInfoExt m \<Rightarrow> with_resp (handleGetMasterchainInfoExt env m)
     | QGetMasterchainInf \<Rightarrow> with_resp (handleGetMasterchainInfo env)
     | QGetLibraries l \<Rightarrow> with_resp (handleGetLibraries env l)
     | QGetOneTransaction i a lt \<Rightarrow> with_resp (handleGetTransaction env i a lt)
     | QGetBlockData i \<Rightarrow> with_resp (handleGetBlock env i)
     | QGetAccountState i a \<Rightarrow> with_resp (handleGetAccount env i a)
     | QRunSmcMethod v \<Rightarrow> with_resp (handleRunSmcMethod env v)
     | _ \<Rightarrow> Some (None, HitTypeBackend, []))"

text \<open>
  The direct proxy, taken when \<open>resp\<close> is still nil: one call of the backend; its
  \<^verbatim>\<open>LSError\<close> is the response, any other error becomes 502.
\<close>

definition direct_proxy :: "env \<Rightarrow> query \<Rightarrow> response \<times> call list" where
  "direct_proxy env q_Data =
    (case QueryLiteserver env q_Data of
       Inl err \<Rightarrow>
         (case err of
            ELSError ls \<Rightarrow> (RLSError ls, [(BackendQueryLiteserver, Some err)])
          | EOther m \<Rightarrow>
              (RLSError \<lparr>Code = 502, Text = ''backend node timeout''\<rparr>,
               [(BackendQueryLiteserver, Some err)]))
     | Inr resp \<Rightarrow> (resp, [(BackendQueryLiteserver, None)]))"

text \<open>What a connection is sent.\<close>

datatype sent = MessageAnswer bytes response | TCPPong "64 word"

text \<open>
  The task: the messages it sends, the hit class it records in the query metric (none
  when it returns before the metric is set up, or in the only-proxy mode) and the calls
  it made.
\<close>

type_synonym finished = "(sent list \<times> string option \<times> call list) option"

definition task :: "env \<Rightarrow> bool \<Rightarrow> bytes \<Rightarrow> query \<Rightarrow> finished" where
  "task env onlyProxy m_ID q_Data =
    (if \<not> onlyProxy then
       (case wait_master env q_Data of
          Replied r cs \<Rightarrow> Some ([MessageAnswer m_ID r], None, cs)
        | Dropped cs \<Rightarrow> Some ([], None, cs)
        | Proceed q cs \<Rightarrow>
           (case dispatch env q of
              None \<Rightarrow> None
            | Some (Some resp, hitType, cs') \<Rightarrow>
                Some ([MessageAnswer m_ID resp], Some hitType, cs @ cs')
            | Some (None, hitType, cs') \<Rightarrow>
               (case direct_proxy env q of
                  (resp, cs'') \<Rightarrow>
                    Some ([MessageAnswer m_ID resp], Some hitType, cs @ cs' @ cs''))))
     else
       (case direct_proxy env q_Data of
          (resp, cs) \<Rightarrow> Some ([MessageAnswer m_ID resp], None, cs)))"

section \<open>The session front-end\<close>

text \<open>
  The limiters are those of the external leaky-bucket library. A bucket is its capacity
  and its count at the moment of the request (the library computes the count from the
  clock; the leak between requests is outside this model). \<^verbatim>\<open>Add(amount)\<close> adds up to
  the capacity and returns what it added; a collector keeps one bucket per key and makes
  an empty one for a key it has not seen.
\<close>

record LeakyBucket =
  capacity :: int
  count :: int

definition LeakyBucket_Add :: "LeakyBucket \<Rightarrow> int \<Rightarrow> int \<times> LeakyBucket" where
  "LeakyBucket_Add b amount =
    (if count b \<ge> capacity b then (0, b)
     else
       (let remaining = capacity b - count b;
            amount' = (if amount > remaining then remaining else amount)
        in (amount', b\<lparr>count := count b + amount'\<rparr>)))"

record Collector =
  col_capacity :: int
  buckets :: "string \<rightharpoonup> LeakyBucket"

definition bucket_of :: "Collector \<Rightarrow> string \<Rightarrow> LeakyBucket" where
  "bucket_of c key =
    (case buckets c key of
       None \<Rightarrow> \<lparr>capacity = col_capacity c, count = 0\<rparr>
     | Some b \<Rightarrow> b)"

definition Collector_Add :: "Collector \<Rightarrow> string \<Rightarrow> int \<Rightarrow> int \<times> Collector" where
  "Collector_Add c key amount =
    (case LeakyBucket_Add (bucket_of c key) amount of
       (n, b') \<Rightarrow> (n, c\<lparr>buckets := (buckets c)(key \<mapsto> b')\<rparr>))"

record KeyConfig =
  name :: string
  limiterPerIP :: "Collector option"
  limiterPerKey :: "LeakyBucket option"

record ProxyBalancer =
  configs :: "bytes \<rightharpoonup> KeyConfig"
  onlyProxy :: bool

record ServerClient =
  ServerKey :: bytes
  IP :: string

datatype message_data = LiteServerQuery query | OtherData string

datatype message = MessageQuery bytes message_data | TCPPing "64 word" | OtherMessage string

text \<open>
  What \<^verbatim>\<open>handleRequest\<close> does besides updating the limiters: it returns the result of a
  send, starts the task and returns nil, or returns the error "something unknown".
\<close>

datatype outcome = ReturnSend sent | Spawned bytes query | ReturnError string

definition too_many_requests :: response where
  "too_many_requests = RLSError \<lparr>Code = 429, Text = ''too many requests''\<rparr>"

definition handleRequest :: "ProxyBalancer \<Rightarrow> ServerClient \<Rightarrow> message \<Rightarrow> ProxyBalancer \<times> outcome" where
  "handleRequest s sc msg =
    (let lim = configs s (ServerKey sc) in
     case msg of
       MessageQuery m_ID m_Data \<Rightarrow>
         (case m_Data of
            LiteServerQuery q \<Rightarrow>
              (case lim of
                 None \<Rightarrow>
                   (s, ReturnSend (MessageAnswer m_ID
                         (RLSError \<lparr>Code = 401, Text = ''unexpected server key''\<rparr>)))
               | Some l \<Rightarrow>
                  (let cost = 1;
                       perIP = (case limiterPerIP l of
                                  None \<Rightarrow> (cost, l)
                                | Some c \<Rightarrow>
                                    (case Collector_Add c (IP sc) cost of
                                       (n, c') \<Rightarrow> (n, l\<lparr>limiterPerIP := Some c'\<rparr>)))
                   in if fst perIP \<noteq> cost then
                        (s\<lparr>configs := (configs s)(ServerKey sc \<mapsto> snd perIP)\<rparr>,
                         ReturnSend (MessageAnswer m_ID too_many_requests))
                      else
                        (let perKey = (case limiterPerKey (snd perIP) of
                                         None \<Rightarrow> (cost, snd perIP)
                                       | Some b \<Rightarrow>
                                           (case LeakyBucket_Add b cost of
                                              (n, b') \<Rightarrow> (n, (snd perIP)\<lparr>limiterPerKey := Some b'\<rparr>)))
                         in if fst perKey \<noteq> cost then
                              (s\<lparr>configs := (configs s)(ServerKey sc \<mapsto> snd perKey)\<rparr>,
                               ReturnSend (MessageAnswer m_ID too_many_requests))
                            else
                              (s\<lparr>configs := (configs s)(ServerKey sc \<mapsto> snd perKey)\<rparr>,
                               Spawned m_ID q))))
          | OtherData t \<Rightarrow> (s, ReturnError (''something unknown: '' @ ''adnl.MessageQuery'')))
     | TCPPing r \<Rightarrow> (s, ReturnSend (TCPPong r))
     | OtherMessage t \<Rightarrow> (s, ReturnError (''something unknown: '' @ t)))"

text \<open>
  One request from its arrival to the end of its task: the limiters afterwards, the
  messages sent, the hit class recorded and the calls made.
\<close>

definition serve ::
  "env \<Rightarrow> ProxyBalancer \<Rightarrow> ServerClient \<Rightarrow> message
     \<Rightarrow> (ProxyBalancer \<times> sent list \<times> string option \<times> call list) option" where
  "serve env s sc msg =
    (case handleRequest s sc msg of
       (s', ReturnSend m) \<Rightarrow> Some (s', [m], None, [])
     | (s', ReturnError e) \<Rightarrow> Some (s', [], None, [])
     | (s', Spawned m_ID q) \<Rightarrow>
        (case task env (onlyProxy s) m_ID q of
           None \<Rightarrow> None
         | Some (out, hit, cs) \<Rightarrow> Some (s', out, hit, cs)))"

section \<open>Sample values\<close>

text \<open>
  A cache that holds everything, an emulator and a backend that answer, and variants in
  which one collaborator fails; a proxy with two keys, one whose per-key bucket is full
  and one whose per-IP bucket for the client is full.
\<close>

definition ex_id :: BlockIDExt where
  "ex_id = \<lparr>Workchain = -1, Shard = 0x8000000000000000, SeqNo = 100, RootHash = [1], FileHash = [2]\<rparr>"

definition ex_account :: AccountID where
  "ex_account = \<lparr>acc_Workchain = 0, acc_ID = [7]\<rparr>"

definition ex_master :: MasterBlock where
  "ex_master = \<lparr>mb_Block_ID = ex_id, mb_GenTime = 1700000000, mb_StateHash = [3],
                 mb_Config = Dictionary 32 None\<rparr>"

definition ex_zero :: ZeroStateIDExt where
  "ex_zero = \<lparr>zs_Workchain = -1, zs_RootHash = [4], zs_FileHash = [5]\<rparr>"

definition ex_state_cell :: cell where
  "ex_state_cell = Cell OrdinaryCellType [True] []"

definition ex_code :: cell where
  "ex_code = Cell OrdinaryCellType [True, False]
               [Cell LibraryCellType (replicate 264 True) [], Cell OrdinaryCellType [] []]"

definition ex_state :: AccountState where
  "ex_state = \<lparr>as_ID = ex_id, as_Shard = ex_id\<lparr>Workchain := 0, SeqNo := 200\<rparr>,
                as_ShardProof = [Cell OrdinaryCellType [False] []],
                as_Proof = [Cell OrdinaryCellType [True, True] []],
                as_State = Some ex_state_cell\<rparr>"

definition ex_tx :: TransactionInfo where
  "ex_tx = \<lparr>ti_ID = ex_id, ti_Proof = [6], ti_Transaction = [8, 9]\<rparr>"

definition ex_not_found :: LSError where
  "ex_not_found = \<lparr>Code = 404, Text = ''block not found''\<rparr>"

definition ex_env :: env where
  "ex_env =
    \<lparr>cache_GetTransaction = (\<lambda>i a lt. Inr (ex_tx, True)),
     cache_GetLibraries = (\<lambda>hs. Inr (Dictionary 256 None, True)),
     cache_WaitMasterBlock = (\<lambda>s t. None),
     cache_GetZeroState = Inr ex_zero,
     cache_GetMasterBlock = (\<lambda>i. Inr (ex_master, True)),
     cache_GetLastMasterBlock = Inr (ex_master, True),
     cache_GetBlock = (\<lambda>i. Inr (\<lparr>bd_ID = i, bd_Payload = [10]\<rparr>, True)),
     cache_GetAccountState = (\<lambda>b a. Inr (ex_state, True)),
     RunGetMethod = (\<lambda>m p t g. Inr \<lparr>res_ExitCode = 0, res_Stack = Some (Cell OrdinaryCellType [True] [])\<rparr>),
     QueryLiteserver = (\<lambda>q. Inr (RBackend ''liteServer.configInfo'' [11])),
     LoadFromCell = (\<lambda>c. Inr \<lparr>st_StateInit = Some \<lparr>si_Code = Some ex_code, si_Data = None\<rparr>,
                                st_Balance = 5\<rparr>),
     CreateProof = (\<lambda>c. Inr (Cell MerkleProofCellType [] [c])),
     LoadAll = (\<lambda>d. Inr []),
     Now = 1700000000,
     LSError_Error = (\<lambda>ls. Text ls),
     ErrCodeContractNotInitialized = -256\<rparr>"

definition ex_run :: "32 word \<Rightarrow> RunSmcMethod" where
  "ex_run mode = \<lparr>rsm_Mode = mode, rsm_ID = ex_id, rsm_Account = ex_account,
                   rsm_MethodID = 85143, rsm_Params = None\<rparr>"

definition ex_not_ready :: LSError where
  "ex_not_ready = \<lparr>Code = 651, Text = ''block is not applied''\<rparr>"

definition ex_env_no_master :: env where
  "ex_env_no_master = ex_env\<lparr>cache_GetMasterBlock := (\<lambda>i. Inl (ELSError ex_not_found))\<rparr>"

definition ex_env_no_block :: env where
  "ex_env_no_block = ex_env\<lparr>cache_GetBlock := (\<lambda>i. Inl (ELSError ex_not_found))\<rparr>"

definition ex_env_no_last :: env where
  "ex_env_no_last = ex_env\<lparr>cache_GetLastMasterBlock := Inl (ELSError ex_not_ready)\<rparr>"

definition ex_env_no_zero :: env where
  "ex_env_no_zero = ex_env\<lparr>cache_GetZeroState := Inl (ELSError ex_not_ready)\<rparr>"

definition ex_env_backend_lserror :: env where
  "ex_env_backend_lserror = ex_env\<lparr>QueryLiteserver := (\<lambda>q. Inl (ELSError ex_not_found))\<rparr>"

definition ex_env_backend_down :: env where
  "ex_env_backend_down = ex_env\<lparr>QueryLiteserver := (\<lambda>q. Inl (EOther ''context deadline exceeded''))\<rparr>"

definition ex_env_state_miss :: env where
  "ex_env_state_miss = ex_env\<lparr>cache_GetAccountState := (\<lambda>b a. Inr (ex_state, False))\<rparr>"

definition ex_env_master_miss :: env where
  "ex_env_master_miss = ex_env\<lparr>cache_GetMasterBlock := (\<lambda>i. Inr (ex_master, False))\<rparr>"

definition ex_env_libs_miss :: env where
  "ex_env_libs_miss = ex_env\<lparr>cache_GetLibraries := (\<lambda>hs. Inr (Dictionary 256 None, False))\<rparr>"

definition ex_lib_with_ref :: cell where
  "ex_lib_with_ref =
     Cell LibraryCellType (replicate 264 False) [Cell LibraryCellType (replicate 264 True) []]"

definition ex_key :: bytes where
  "ex_key = [1, 2, 3]"

definition ex_cfg :: KeyConfig where
  "ex_cfg = \<lparr>name = ''t1'',
             limiterPerIP = Some \<lparr>col_capacity = 2, buckets = Map.empty\<rparr>,
             limiterPerKey = Some \<lparr>capacity = 5, count = 5\<rparr>\<rparr>"

definition ex_cfg_ip_full :: KeyConfig where
  "ex_cfg_ip_full =
     \<lparr>name = ''t2'',
      limiterPerIP = Some \<lparr>col_capacity = 2,
                           buckets = [''10.0.0.1'' \<mapsto> \<lparr>capacity = 2, count = 2\<rparr>]\<rparr>,
      limiterPerKey = None\<rparr>"

definition ex_proxy :: ProxyBalancer where
  "ex_proxy = \<lparr>configs = [ex_key \<mapsto> ex_cfg, [4] \<mapsto> ex_cfg_ip_full], onlyProxy = False\<rparr>"

definition ex_client :: "bytes \<Rightarrow> ServerClient" where
  "ex_client key = \<lparr>ServerKey = key, IP = ''10.0.0.1''\<rparr>"

definition ex_four_calls :: "call list" where
  "ex_four_calls = [(CacheGetMasterBlock, None), (CacheGetAccountState, None),
                    (CacheGetLibraries, None), (EmulatorRunGetMethod, None)]"

section \<open>The hit class of a method run, as specified\<close>

text \<open>
  The function \<^verbatim>\<open>classify(master_cached, state_cached, libs_cached)\<close> in the words of
  the specification, to be compared with what \<^verbatim>\<open>handleRunSmcMethod\<close> computes.
\<close>

definition classify :: "bool \<Rightarrow> bool \<Rightarrow> bool \<Rightarrow> string" where
  "classify master_cached state_cached libs_cached =
     (if master_cached \<and> state_cached \<and> libs_cached then ''cache''
      else if master_cached \<and> libs_cached \<and> \<not> state_cached then ''emulated''
      else ''backend'')"

section \<open>The walk over library cells, as specified\<close>

text \<open>
  \<open>spec_findLibs\<close> follows the words of the specification: a library-type cell gives
  its hash, any other cell the hashes found under its references. \<open>library_leaves\<close>
  are the cells at which the walk of the code stops.
\<close>

fun spec_findLibs :: "cell \<Rightarrow> bytes list" where
  "spec_findLibs (Cell t bs rs) =
     (if t = LibraryCellType then [pack_bits (take 256 (drop 8 bs))]
      else concat (map spec_findLibs rs))"

fun library_leaves :: "cell \<Rightarrow> cell list" where
  "library_leaves (Cell t bs rs) =
     (if rs = [] \<and> t = LibraryCellType then [Cell t bs rs]
      else concat (map library_leaves rs))"

definition library_hash :: "cell \<Rightarrow> bytes" where
  "library_hash c = pack_bits (take 256 (drop 8 (bits c)))"

section \<open>Facts used by the proofs\<close>

lemmas ex_defs = ex_id_def ex_account_def ex_master_def ex_zero_def ex_state_cell_def ex_code_def
  ex_state_def ex_tx_def ex_not_found_def ex_env_def ex_run_def ex_not_ready_def
  ex_env_no_master_def ex_env_no_block_def ex_env_no_last_def ex_env_no_zero_def
  ex_env_backend_lserror_def ex_env_backend_down_def ex_lib_with_ref_def ex_key_def ex_cfg_def
  ex_cfg_ip_full_def ex_proxy_def ex_client_def ex_four_calls_def ex_env_state_miss_def
  ex_env_master_miss_def ex_env_libs_miss_def

lemmas hit_defs = HitTypeEmulated_def HitTypeBackend_def HitTypeCache_def HitTypeFailedValidate_def
  HitTypeFailedInternal_def

lemmas run_splits = sum.splits error.splits option.splits prod.splits if_splits

lemmas handler_defs = handleRunSmcMethod_def handleGetMasterchainInfoExt_def
  handleGetMasterchainInfo_def handleGetLibraries_def handleGetBlock_def
  handleGetTransaction_def handleGetAccount_def

lemmas eval_defs = ex_defs hit_defs handler_defs dispatch_def with_resp_def NewAddress_def
  MustLoadSlice_def

lemma map_sum_Some_Inr:
  "map_sum id Some x = Inr y \<longleftrightarrow> (\<exists>p. x = Inr p \<and> y = Some p)"
  by (cases x) auto

lemma LeakyBucket_Add_one:
  "LeakyBucket_Add b 1 =
     (if capacity b \<le> count b then (0, b) else (1, b\<lparr>count := count b + 1\<rparr>))"
  by (simp add: LeakyBucket_Add_def Let_def)

lemma Collector_Add_one:
  "Collector_Add c key 1 =
     (if capacity (bucket_of c key) \<le> count (bucket_of c key)
      then (0, c\<lparr>buckets := (buckets c)(key \<mapsto> bucket_of c key)\<rparr>)
      else (1, c\<lparr>buckets := (buckets c)(key \<mapsto> (bucket_of c key)\<lparr>count := count (bucket_of c key) + 1\<rparr>)\<rparr>))"
  by (simp add: Collector_Add_def LeakyBucket_Add_one)

lemma append_all_map:
  "append_all res xs =
     (if None \<in> set xs then None else Some (res @ concat (map the xs)))"
  by (induction res xs rule: append_all.induct) auto

lemma classify_cases:
  "(classify m s l = ''cache'' \<longleftrightarrow> m \<and> s \<and> l)
   \<and> (classify m s l = ''emulated'' \<longleftrightarrow> m \<and> l \<and> \<not> s)
   \<and> (classify m s l = ''backend'' \<longleftrightarrow> \<not> (m \<and> l))"
  by (auto simp: classify_def)

lemma run_succeeds:
  assumes "cache_GetMasterBlock env (rsm_ID v) = Inr (block, cachedMaster)"
    and "cache_GetAccountState env block
         (NewAddress 0 (ucast (acc_Workchain (rsm_Account v))) (acc_ID (rsm_Account v)))
        = Inr (state, cachedState)"
    and "as_State state = Some stateCell"
    and "LoadFromCell env stateCell = Inr st"
    and "st_StateInit st = Some si"
    and "si_Code si = Some code"
    and "findLibs code = Some hashes"
    and "cache_GetLibraries env hashes = Inr (libs, cachedLibs)"
    and "RunGetMethod env (ucast (rsm_MethodID v))
         \<lparr>rp_Code = si_Code si, rp_Data = si_Data si,
          rp_Address = NewAddress 0 (ucast (acc_Workchain (rsm_Account v))) (acc_ID (rsm_Account v)),
          rp_Stack = rsm_Params v, rp_Balance = st_Balance st, rp_Libs = libs,
          rp_Config = mb_Config block, rp_Time = Now env\<rparr> False 1000000 = Inr res"
    and "rsm_Mode v AND 8 = 0"
    and "if rsm_Mode v AND 2 \<noteq> 0 then \<exists>p. CreateProof env stateCell = Inr p else True"
  shows "\<exists>r cs. handleRunSmcMethod env v
           = Some (RRunMethodResult r, classify cachedMaster cachedState cachedLibs, cs)"
proof (cases "rsm_Mode v AND 2 \<noteq> 0")
  case True
  with assms(11) obtain p where "CreateProof env stateCell = Inr p"
    by auto
  with True assms(1-10) show ?thesis
    by (simp add: handleRunSmcMethod_def Let_def hit_defs classify_def)
next
  case False
  with assms(1-10) show ?thesis
    by (simp add: handleRunSmcMethod_def Let_def hit_defs classify_def)
qed

lemma run_resolved:
  assumes "handleRunSmcMethod env v = Some (RRunMethodResult r, hit, cs)"
  shows "\<exists>block cachedMaster state cachedState stateCell st si code hashes libs cachedLibs res.
      cache_GetMasterBlock env (rsm_ID v) = Inr (block, cachedMaster)
    \<and> cache_GetAccountState env block
         (NewAddress 0 (ucast (acc_Workchain (rsm_Account v))) (acc_ID (rsm_Account v)))
        = Inr (state, cachedState)
    \<and> as_State state = Some stateCell \<and> LoadFromCell env stateCell = Inr st
    \<and> st_StateInit st = Some si \<and> si_Code si = Some code \<and> findLibs code = Some hashes
    \<and> cache_GetLibraries env hashes = Inr (libs, cachedLibs)
    \<and> RunGetMethod env (ucast (rsm_MethodID v))
         \<lparr>rp_Code = si_Code si, rp_Data = si_Data si,
          rp_Address = NewAddress 0 (ucast (acc_Workchain (rsm_Account v))) (acc_ID (rsm_Account v)),
          rp_Stack = rsm_Params v, rp_Balance = st_Balance st, rp_Libs = libs,
          rp_Config = mb_Config block, rp_Time = Now env\<rparr> False 1000000 = Inr res
    \<and> rsm_Mode v AND 8 = 0
    \<and> (if rsm_Mode v AND 2 \<noteq> 0 then \<exists>p. CreateProof env stateCell = Inr p else True)
    \<and> hit = classify cachedMaster cachedState cachedLibs"
  using assms
  unfolding handleRunSmcMethod_def Let_def
  by (auto simp: hit_defs classify_def map_sum_Some_Inr split: run_splits)

lemma handleGetTransaction_cached:
  "cache_GetTransaction env i a lt = Inr (d, True) \<Longrightarrow>
     handleGetTransaction env i a lt
       = Some (RTransactionInfo d, HitTypeEmulated, [(CacheGetTransaction, None)])"
  by (simp add: handleGetTransaction_def)

section \<open>RunSmcMethod\<close>




text \<open>
  C2. \<^verbatim>\<open>handleRunSmcMethod\<close> returns a \<^verbatim>\<open>RunMethodResult\<close> with hit class \<open>hit\<close>
  exactly when the master block, the account state with its state cell, the parse, the
  libraries and the emulation succeed, the mode has bit 3 clear, the state proof is built
  when bit 1 is set, and \<open>hit\<close> is the classification of the three \<^verbatim>\<open>was_cached\<close>
  flags those lookups returned: \<^verbatim>\<open>cache\<close> iff all three are set, \<^verbatim>\<open>emulated\<close> iff
  master and libraries are set and the state is not, \<^verbatim>\<open>backend\<close> in every other case.
  So every successful run records the class of its flags, and each of the three classes
  is recorded by the runs whose flags call for it.
\<close>

theorem run_hit_class:
  "((\<exists>r cs. handleRunSmcMethod env v = Some (RRunMethodResult r, hit, cs))
    \<longleftrightarrow>
    (\<exists>block cachedMaster state cachedState stateCell st si code hashes libs cachedLibs res.
       cache_GetMasterBlock env (rsm_ID v) = Inr (block, cachedMaster)
     \<and> cache_GetAccountState env block
          (NewAddress 0 (ucast (acc_Workchain (rsm_Account v))) (acc_ID (rsm_Account v)))
         = Inr (state, cachedState)
     \<and> as_State state = Some stateCell \<and> LoadFromCell env stateCell = Inr st
     \<and> st_StateInit st = Some si \<and> si_Code si = Some code \<and> findLibs code = Some hashes
     \<and> cache_GetLibraries env hashes = Inr (libs, cachedLibs)
     \<and> RunGetMethod env (ucast (rsm_MethodID v))
          \<lparr>rp_Code = si_Code si, rp_Data = si_Data si,
           rp_Address = NewAddress 0 (ucast (acc_Workchain (rsm_Account v))) (acc_ID (rsm_Account v)),
           rp_Stack = rsm_Params v, rp_Balance = st_Balance st, rp_Libs = libs,
           rp_Config = mb_Config block, rp_Time = Now env\<rparr> False 1000000 = Inr res
     \<and> rsm_Mode v AND 8 = 0
     \<and> (if rsm_Mode v AND 2 \<noteq> 0 then \<exists>p. CreateProof env stateCell = Inr p else True)
     \<and> hit = classify cachedMaster cachedState cachedLibs))
   \<and> (classify m s l = ''cache'' \<longleftrightarrow> m \<and> s \<and> l)
   \<and> (classify m s l = ''emulated'' \<longleftrightarrow> m \<and> l \<and> \<not> s)
   \<and> (classify m s l = ''backend'' \<longleftrightarrow> \<not> (m \<and> l))"
  (is "(?L \<longleftrightarrow> ?R) \<and> ?C")
proof
  show "?L \<longleftrightarrow> ?R"
  proof
    assume ?L
    then obtain r cs where "handleRunSmcMethod env v = Some (RRunMethodResult r, hit, cs)"
      by blast
    then show ?R
      by (rule run_resolved)
  next
    assume ?R
    then obtain block cachedMaster state cachedState stateCell st si code hashes libs cachedLibs res
      where res: "cache_GetMasterBlock env (rsm_ID v) = Inr (block, cachedMaster)"
        "cache_GetAccountState env block
          (NewAddress 0 (ucast (acc_Workchain (rsm_Account v))) (acc_ID (rsm_Account v)))
         = Inr (state, cachedState)"
        "as_State state = Some stateCell" "LoadFromCell env stateCell = Inr st"
        "st_StateInit st = Some si" "si_Code si = Some code"
        "findLibs code = Some hashes"
        "cache_GetLibraries env hashes = Inr (libs, cachedLibs)"
        "RunGetMethod env (ucast (rsm_MethodID v))
          \<lparr>rp_Code = si_Code si, rp_Data = si_Data si,
           rp_Address = NewAddress 0 (ucast (acc_Workchain (rsm_Account v))) (acc_ID (rsm_Account v)),
           rp_Stack = rsm_Params v, rp_Balance = st_Balance st, rp_Libs = libs,
           rp_Config = mb_Config block, rp_Time = Now env\<rparr> False 1000000 = Inr res"
        "rsm_Mode v AND 8 = 0"
        "if rsm_Mode v AND 2 \<noteq> 0 then \<exists>p. CreateProof env stateCell = Inr p else True"
        and hit: "hit = classify cachedMaster cachedState cachedLibs"
      by blast
    from res show ?L
      unfolding hit by (rule run_succeeds)
  qed
  show ?C
    by (rule classify_cases)
qed

theorem run_hit_class_witness:
  "(\<exists>r cs. handleRunSmcMethod ex_env (ex_run 0) = Some (RRunMethodResult r, ''cache'', cs))
   \<and> (\<exists>r cs. handleRunSmcMethod ex_env_state_miss (ex_run 0)
               = Some (RRunMethodResult r, ''emulated'', cs))
   \<and> (\<exists>r cs. handleRunSmcMethod ex_env_master_miss (ex_run 2)
               = Some (RRunMethodResult r, ''backend'', cs))
   \<and> (\<exists>r cs. handleRunSmcMethod ex_env_libs_miss (ex_run 0)
               = Some (RRunMethodResult r, ''backend'', cs))"
proof -
  have hashes: "findLibs ex_code = Some [replicate 32 255]"
    by code_simp
  note ex = ex_defs ex_env_state_miss_def ex_env_master_miss_def ex_env_libs_miss_def
    NewAddress_def classify_def
  have a: "\<exists>r cs. handleRunSmcMethod ex_env (ex_run 0) = Some (RRunMethodResult r, ''cache'', cs)"
    apply (rule run_hit_class [THEN conjunct1, THEN iffD2])
    apply (rule exI [of _ ex_master], rule exI [of _ True])
    apply (rule exI [of _ ex_state], rule exI [of _ True])
    apply (rule exI [of _ ex_state_cell])
    apply (rule exI [of _ "\<lparr>st_StateInit = Some \<lparr>si_Code = Some ex_code, si_Data = None\<rparr>, st_Balance = 5\<rparr>"])
    apply (rule exI [of _ "\<lparr>si_Code = Some ex_code, si_Data = None\<rparr>"])
    apply (rule exI [of _ ex_code], rule exI [of _ "[replicate 32 255]"])
    apply (rule exI [of _ "Dictionary 256 None"], rule exI [of _ True])
    apply (rule exI [of _ "\<lparr>res_ExitCode = 0, res_Stack = Some (Cell OrdinaryCellType [True] [])\<rparr>"])
    using hashes apply (simp add: ex)
    done
  have b: "\<exists>r cs. handleRunSmcMethod ex_env_state_miss (ex_run 0)
               = Some (RRunMethodResult r, ''emulated'', cs)"
    apply (rule run_hit_class [THEN conjunct1, THEN iffD2])
    apply (rule exI [of _ ex_master], rule exI [of _ True])
    apply (rule exI [of _ ex_state], rule exI [of _ False])
    apply (rule exI [of _ ex_state_cell])
    apply (rule exI [of _ "\<lparr>st_StateInit = Some \<lparr>si_Code = Some ex_code, si_Data = None\<rparr>, st_Balance = 5\<rparr>"])
    apply (rule exI [of _ "\<lparr>si_Code = Some ex_code, si_Data = None\<rparr>"])
    apply (rule exI [of _ ex_code], rule exI [of _ "[replicate 32 255]"])
    apply (rule exI [of _ "Dictionary 256 None"], rule exI [of _ True])
    apply (rule exI [of _ "\<lparr>res_ExitCode = 0, res_Stack = Some (Cell OrdinaryCellType [True] [])\<rparr>"])
    using hashes apply (simp add: ex)
    done
  have c: "\<exists>r cs. handleRunSmcMethod ex_env_master_miss (ex_run 2)
               = Some (RRunMethodResult r, ''backend'', cs)"
    apply (rule run_hit_class [THEN conjunct1, THEN iffD2])
    apply (rule exI [of _ ex_master], rule exI [of _ False])
    apply (rule exI [of _ ex_state], rule exI [of _ True])
    apply (rule exI [of _ ex_state_cell])
    apply (rule exI [of _ "\<lparr>st_StateInit = Some \<lparr>si_Code = Some ex_code, si_Data = None\<rparr>, st_Balance = 5\<rparr>"])
    apply (rule exI [of _ "\<lparr>si_Code = Some ex_code, si_Data = None\<rparr>"])
    apply (rule exI [of _ ex_code], rule exI [of _ "[replicate 32 255]"])
    apply (rule exI [of _ "Dictionary 256 None"], rule exI [of _ True])
    apply (rule exI [of _ "\<lparr>res_ExitCode = 0, res_Stack = Some (Cell OrdinaryCellType [True] [])\<rparr>"])
    using hashes apply (simp add: ex)
    done
  have d: "\<exists>r cs. handleRunSmcMethod ex_env_libs_miss (ex_run 0)
               = Some (RRunMethodResult r, ''backend'', cs)"
    apply (rule run_hit_class [THEN conjunct1, THEN iffD2])
    apply (rule exI [of _ ex_master], rule exI [of _ True])
    apply (rule exI [of _ ex_state], rule exI [of _ True])
    apply (rule exI [of _ ex_state_cell])
    apply (rule exI [of _ "\<lparr>st_StateInit = Some \<lparr>si_Code = Some ex_code, si_Data = None\<rparr>, st_Balance = 5\<rparr>"])
    apply (rule exI [of _ "\<lparr>si_Code = Some ex_code, si_Data = None\<rparr>"])
    apply (rule exI [of _ ex_code], rule exI [of _ "[replicate 32 255]"])
    apply (rule exI [of _ "Dictionary 256 None"], rule exI [of _ False])
    apply (rule exI [of _ "\<lparr>res_ExitCode = 0, res_Stack = Some (Cell OrdinaryCellType [True] [])\<rparr>"])
    using hashes apply (simp add: ex)
    done
  from a b c d show ?thesis
    by blast
qed

text \<open>
  C8. A \<^verbatim>\<open>RunMethodResult\<close> returned by \<^verbatim>\<open>handleRunSmcMethod\<close> carries the mode and the
  block id of the query, the shard block, shard proof and proof of the account state the
  cache returned, no \<^verbatim>\<open>InitC7\<close> and no \<^verbatim>\<open>LibExtras\<close>, the exit code and stack the
  emulator returned for the code, data, libraries and configuration resolved, and as
  state proof the cell \<^verbatim>\<open>CreateProof\<close> built over the state cell when
  \<^verbatim>\<open>mode & 2 \<noteq> 0\<close>, nil otherwise.
\<close>

theorem run_method_result_fields:
  assumes "handleRunSmcMethod env v = Some (RRunMethodResult r, hit, cs)"
  shows "\<exists>block cachedMaster state cachedState stateCell st si code hashes libs cachedLibs res.
      cache_GetMasterBlock env (rsm_ID v) = Inr (block, cachedMaster)
    \<and> cache_GetAccountState env block
         (NewAddress 0 (ucast (acc_Workchain (rsm_Account v))) (acc_ID (rsm_Account v)))
        = Inr (state, cachedState)
    \<and> as_State state = Some stateCell \<and> LoadFromCell env stateCell = Inr st
    \<and> st_StateInit st = Some si \<and> si_Code si = Some code \<and> findLibs code = Some hashes
    \<and> cache_GetLibraries env hashes = Inr (libs, cachedLibs)
    \<and> RunGetMethod env (ucast (rsm_MethodID v))
         \<lparr>rp_Code = si_Code si, rp_Data = si_Data si,
          rp_Address = NewAddress 0 (ucast (acc_Workchain (rsm_Account v))) (acc_ID (rsm_Account v)),
          rp_Stack = rsm_Params v, rp_Balance = st_Balance st, rp_Libs = libs,
          rp_Config = mb_Config block, rp_Time = Now env\<rparr> False 1000000 = Inr res
    \<and> rmr_Mode r = rsm_Mode v \<and> rmr_ID r = rsm_ID v
    \<and> rmr_ShardBlock r = as_Shard state \<and> rmr_ShardProof r = as_ShardProof state
    \<and> rmr_Proof r = as_Proof state
    \<and> rmr_InitC7 r = None \<and> rmr_LibExtras r = None
    \<and> rmr_ExitCode r = res_ExitCode res \<and> rmr_Result r = res_Stack res
    \<and> (if rsm_Mode v AND 2 \<noteq> 0
        then \<exists>p. CreateProof env stateCell = Inr p \<and> rmr_StateProof r = Some p
        else rmr_StateProof r = None)"
  using assms
  unfolding handleRunSmcMethod_def Let_def
  by (auto simp: hit_defs map_sum_Some_Inr split: run_splits)

theorem run_method_result_fields_witness:
  "\<exists>r. handleRunSmcMethod ex_env (ex_run 7) = Some (RRunMethodResult r, ''cache'', ex_four_calls)
     \<and> rmr_Mode r = 7 \<and> rmr_ID r = ex_id \<and> rmr_ShardBlock r = as_Shard ex_state
     \<and> rmr_ShardProof r = as_ShardProof ex_state \<and> rmr_Proof r = as_Proof ex_state
     \<and> rmr_InitC7 r = None \<and> rmr_LibExtras r = None
     \<and> rmr_StateProof r = Some (Cell MerkleProofCellType [] [ex_state_cell])"
proof -
  obtain r where run:
    "handleRunSmcMethod ex_env (ex_run 7) = Some (RRunMethodResult r, ''cache'', ex_four_calls)"
    by (simp add: eval_defs)
  from run_method_result_fields [OF run] have
    "rmr_Mode r = 7 \<and> rmr_ID r = ex_id \<and> rmr_ShardBlock r = as_Shard ex_state
     \<and> rmr_ShardProof r = as_ShardProof ex_state \<and> rmr_Proof r = as_Proof ex_state
     \<and> rmr_InitC7 r = None \<and> rmr_LibExtras r = None
     \<and> rmr_StateProof r = Some (Cell MerkleProofCellType [] [ex_state_cell])"
    by (auto simp: ex_env_def ex_run_def ex_state_def)
  with run show ?thesis
    by blast
qed

section \<open>Errors of the cache lookups\<close>

text \<open>
  C3, as the code has it. When the last call of a dispatched query is one of the cache
  lookups \<^verbatim>\<open>GetMasterBlock\<close>, \<^verbatim>\<open>GetLastMasterBlock\<close>, \<^verbatim>\<open>GetAccountState\<close>,
  \<^verbatim>\<open>GetLibraries\<close>, \<^verbatim>\<open>GetBlock\<close>, \<^verbatim>\<open>GetTransaction\<close> and it failed with an
  \<^verbatim>\<open>LSError\<close>, the response is exactly that error; the hit class is
  \<^verbatim>\<open>failed_validate\<close> for every query but \<^verbatim>\<open>GetMasterchainInfo\<close> and
  \<^verbatim>\<open>GetMasterchainInfoExt\<close>.
\<close>

theorem lserror_forwarded:
  assumes "dispatch env q = Some (resp, hit, cs)"
    and "cs \<noteq> []"
    and "last cs = (c, Some (ELSError ls))"
    and "c \<in> {CacheGetMasterBlock, CacheGetLastMasterBlock, CacheGetAccountState,
               CacheGetLibraries, CacheGetBlock, CacheGetTransaction}"
  shows "resp = Some (RLSError ls)
    \<and> (q \<noteq> QGetMasterchainInf \<and> (\<forall>m. q \<noteq> QGetMasterchainInfoExt m)
         \<longrightarrow> hit = HitTypeFailedValidate)"
proof (cases q)
  case (QRunSmcMethod v)
  with assms show ?thesis
    unfolding dispatch_def with_resp_def handleRunSmcMethod_def Let_def
    by (auto split: run_splits)
next
  case (QGetMasterchainInfoExt m)
  with assms show ?thesis
    unfolding dispatch_def with_resp_def handleGetMasterchainInfoExt_def Let_def
    by (auto split: run_splits)
next
  case QGetMasterchainInf
  with assms show ?thesis
    unfolding dispatch_def with_resp_def handleGetMasterchainInfo_def Let_def
    by (auto split: run_splits)
next
  case (QGetLibraries l)
  with assms show ?thesis
    unfolding dispatch_def with_resp_def handleGetLibraries_def Let_def
    by (auto split: run_splits)
next
  case (QGetOneTransaction i a lt)
  with assms show ?thesis
    unfolding dispatch_def with_resp_def handleGetTransaction_def
    by (auto split: run_splits)
next
  case (QGetBlockData i)
  with assms show ?thesis
    unfolding dispatch_def with_resp_def handleGetBlock_def
    by (auto split: run_splits)
next
  case (QGetAccountState i a)
  with assms show ?thesis
    unfolding dispatch_def with_resp_def handleGetAccount_def
    by (auto split: run_splits)
qed (use assms in \<open>auto simp: dispatch_def\<close>)

theorem lserror_forwarded_witness:
  "dispatch ex_env_no_block (QGetBlockData ex_id)
     = Some (Some (RLSError ex_not_found), HitTypeFailedValidate,
             [(CacheGetBlock, Some (ELSError ex_not_found))])
   \<and> last [(CacheGetBlock, Some (ELSError ex_not_found))] = (CacheGetBlock, Some (ELSError ex_not_found))
   \<and> QGetBlockData ex_id \<noteq> QGetMasterchainInf"
proof -
  obtain resp hit where run:
    "dispatch ex_env_no_block (QGetBlockData ex_id)
       = Some (resp, hit, [(CacheGetBlock, Some (ELSError ex_not_found))])"
    by (simp add: eval_defs)
  have "resp = Some (RLSError ex_not_found)
    \<and> (QGetBlockData ex_id \<noteq> QGetMasterchainInf \<and> (\<forall>m. QGetBlockData ex_id \<noteq> QGetMasterchainInfoExt m)
         \<longrightarrow> hit = HitTypeFailedValidate)"
    by (rule lserror_forwarded [OF run, of CacheGetBlock ex_not_found]) simp_all
  with run show ?thesis
    by simp
qed

text \<open>
  \<^verbatim>\<open>GetMasterchainInfo\<close> and \<^verbatim>\<open>GetMasterchainInfoExt\<close> forward the \<^verbatim>\<open>LSError\<close> of
  \<^verbatim>\<open>GetLastMasterBlock\<close> with hit class \<^verbatim>\<open>failed_internal\<close>, and an \<^verbatim>\<open>LSError\<close> of
  \<^verbatim>\<open>GetZeroState\<close> is not forwarded: the response is the error 500.
\<close>

theorem lserror_class_counterexample:
  "dispatch ex_env_no_last QGetMasterchainInf
     = Some (Some (RLSError \<lparr>Code = 651, Text = ''block is not applied''\<rparr>), ''failed_internal'',
             [(CacheGetLastMasterBlock, Some (ELSError \<lparr>Code = 651, Text = ''block is not applied''\<rparr>))])
   \<and> dispatch ex_env_no_last (QGetMasterchainInfoExt 0)
     = Some (Some (RLSError \<lparr>Code = 651, Text = ''block is not applied''\<rparr>), ''failed_internal'',
             [(CacheGetLastMasterBlock, Some (ELSError \<lparr>Code = 651, Text = ''block is not applied''\<rparr>))])
   \<and> dispatch ex_env_no_zero QGetMasterchainInf
     = Some (Some (RLSError \<lparr>Code = 500, Text = ''failed to resolve zero state''\<rparr>), ''failed_internal'',
             [(CacheGetLastMasterBlock, None),
              (CacheGetZeroState, Some (ELSError \<lparr>Code = 651, Text = ''block is not applied''\<rparr>))])"
  by (simp add: eval_defs)

section \<open>Hit class of a cached transaction\<close>

text \<open>
  C4. A \<^verbatim>\<open>GetOneTransaction\<close> query whose transaction the cache returns with
  \<^verbatim>\<open>was_cached = true\<close> is recorded with hit class \<^verbatim>\<open>emulated\<close>, where a
  \<^verbatim>\<open>GetBlockData\<close> query served from the cache in the same way is recorded with
  \<^verbatim>\<open>cache\<close>.
\<close>

theorem cached_transaction_hit_class:
  "cache_GetTransaction ex_env ex_id ex_account 7 = Inr (ex_tx, True)
   \<and> dispatch ex_env (QGetOneTransaction ex_id ex_account 7)
       = Some (Some (RTransactionInfo ex_tx), ''emulated'', [(CacheGetTransaction, None)])
   \<and> dispatch ex_env (QGetBlockData ex_id)
       = Some (Some (RBlockData \<lparr>bd_ID = ex_id, bd_Payload = [10]\<rparr>), ''cache'',
               [(CacheGetBlock, None)])"
  by (simp add: eval_defs)

section \<open>Admission: server key and rate limits\<close>

text \<open>
  C5. For a query on a known key, if the bucket of the client's address in the per-IP
  limiter or the per-key bucket holds less room than the cost 1, \<^verbatim>\<open>handleRequest\<close>
  returns the send of \<^verbatim>\<open>LSError{429, "too many requests"}\<close>; no task is started, so the
  request makes no call of the cache, the emulator or the backend.
\<close>

theorem rate_limited_no_resolution:
  assumes "configs s (ServerKey sc) = Some l"
    and "(\<exists>c. limiterPerIP l = Some c
              \<and> capacity (bucket_of c (IP sc)) - count (bucket_of c (IP sc)) < 1)
       \<or> (\<exists>b. limiterPerKey l = Some b \<and> capacity b - count b < 1)"
  shows "snd (handleRequest s sc (MessageQuery m_ID (LiteServerQuery q)))
           = ReturnSend (MessageAnswer m_ID (RLSError \<lparr>Code = 429, Text = ''too many requests''\<rparr>))
    \<and> (\<exists>s'. serve env s sc (MessageQuery m_ID (LiteServerQuery q))
           = Some (s', [MessageAnswer m_ID (RLSError \<lparr>Code = 429, Text = ''too many requests''\<rparr>)],
                   None, []))"
  using assms
  unfolding serve_def handleRequest_def Let_def too_many_requests_def
  by (auto simp: LeakyBucket_Add_one Collector_Add_one split: option.splits)

theorem rate_limited_no_resolution_witness:
  "configs ex_proxy (ServerKey (ex_client ex_key)) = Some ex_cfg
   \<and> (\<exists>b. limiterPerKey ex_cfg = Some b \<and> capacity b - count b < 1)
   \<and> snd (handleRequest ex_proxy (ex_client ex_key) (MessageQuery [42] (LiteServerQuery QGetTime)))
       = ReturnSend (MessageAnswer [42] (RLSError \<lparr>Code = 429, Text = ''too many requests''\<rparr>))
   \<and> (\<exists>s'. serve ex_env ex_proxy (ex_client ex_key) (MessageQuery [42] (LiteServerQuery QGetTime))
         = Some (s', [MessageAnswer [42] (RLSError \<lparr>Code = 429, Text = ''too many requests''\<rparr>)],
                 None, []))
   \<and> configs ex_proxy (ServerKey (ex_client [4])) = Some ex_cfg_ip_full
   \<and> (\<exists>c. limiterPerIP ex_cfg_ip_full = Some c
         \<and> capacity (bucket_of c (IP (ex_client [4]))) - count (bucket_of c (IP (ex_client [4]))) < 1)
   \<and> (\<exists>s'. serve ex_env ex_proxy (ex_client [4]) (MessageQuery [43] (LiteServerQuery QGetTime))
         = Some (s', [MessageAnswer [43] (RLSError \<lparr>Code = 429, Text = ''too many requests''\<rparr>)],
                 None, []))"
proof -
  have k: "configs ex_proxy (ServerKey (ex_client ex_key)) = Some ex_cfg"
    by (simp add: ex_defs)
  have kfull: "\<exists>b. limiterPerKey ex_cfg = Some b \<and> capacity b - count b < 1"
    by (simp add: ex_defs)
  have i: "configs ex_proxy (ServerKey (ex_client [4])) = Some ex_cfg_ip_full"
    by (simp add: ex_defs)
  have ifull: "\<exists>c. limiterPerIP ex_cfg_ip_full = Some c
         \<and> capacity (bucket_of c (IP (ex_client [4]))) - count (bucket_of c (IP (ex_client [4]))) < 1"
    by (simp add: ex_defs bucket_of_def)
  from rate_limited_no_resolution [OF k disjI2, OF kfull, of "[42]" QGetTime ex_env]
    rate_limited_no_resolution [OF i disjI1, OF ifull, of "[43]" QGetTime ex_env]
    k kfull i ifull
  show ?thesis
    by blast
qed

text \<open>
  C6. A query on a connection whose server key has no configuration is answered with
  \<^verbatim>\<open>LSError{401, "unexpected server key"}\<close>, and the proxy with all its limiters is
  left as it was.
\<close>

theorem unknown_key_rejected:
  assumes "configs s (ServerKey sc) = None"
  shows "handleRequest s sc (MessageQuery m_ID (LiteServerQuery q))
           = (s, ReturnSend (MessageAnswer m_ID
                   (RLSError \<lparr>Code = 401, Text = ''unexpected server key''\<rparr>)))
    \<and> serve env s sc (MessageQuery m_ID (LiteServerQuery q))
           = Some (s, [MessageAnswer m_ID (RLSError \<lparr>Code = 401, Text = ''unexpected server key''\<rparr>)],
                   None, [])"
  using assms
  by (simp add: serve_def handleRequest_def)

theorem unknown_key_rejected_witness:
  "configs ex_proxy (ServerKey (ex_client [9])) = None
   \<and> handleRequest ex_proxy (ex_client [9]) (MessageQuery [42] (LiteServerQuery QGetTime))
       = (ex_proxy, ReturnSend (MessageAnswer [42]
            (RLSError \<lparr>Code = 401, Text = ''unexpected server key''\<rparr>)))"
proof -
  have k: "configs ex_proxy (ServerKey (ex_client [9])) = None"
    by (simp add: ex_defs)
  from unknown_key_rejected [OF k, of "[42]" QGetTime ex_env] k show ?thesis
    by simp
qed

text \<open>
  C10. On a key with both limiters, when the bucket of the client's address in the
  per-IP limiter has room and the per-key bucket has none, the request is answered with
  \<^verbatim>\<open>LSError{429, "too many requests"}\<close>, the per-key bucket is as before, and the
  per-IP bucket stays debited by the cost 1.
\<close>

theorem per_ip_debited_before_per_key:
  assumes "configs s (ServerKey sc) = Some l"
    and "limiterPerIP l = Some c"
    and "limiterPerKey l = Some b"
    and "count (bucket_of c (IP sc)) < capacity (bucket_of c (IP sc))"
    and "capacity b \<le> count b"
  shows "\<exists>s' l' c'.
      handleRequest s sc (MessageQuery m_ID (LiteServerQuery q))
        = (s', ReturnSend (MessageAnswer m_ID (RLSError \<lparr>Code = 429, Text = ''too many requests''\<rparr>)))
    \<and> configs s' (ServerKey sc) = Some l'
    \<and> limiterPerIP l' = Some c'
    \<and> c' = snd (Collector_Add c (IP sc) 1)
    \<and> count (bucket_of c' (IP sc)) = count (bucket_of c (IP sc)) + 1
    \<and> limiterPerKey l' = Some b"
  using assms
  unfolding handleRequest_def Let_def too_many_requests_def
  by (simp add: LeakyBucket_Add_one Collector_Add_one bucket_of_def)

theorem per_ip_debited_before_per_key_witness:
  "\<exists>s' l' c'.
      handleRequest ex_proxy (ex_client ex_key) (MessageQuery [42] (LiteServerQuery QGetTime))
        = (s', ReturnSend (MessageAnswer [42] (RLSError \<lparr>Code = 429, Text = ''too many requests''\<rparr>)))
    \<and> configs s' ex_key = Some l'
    \<and> limiterPerIP l' = Some c'
    \<and> count (bucket_of c' ''10.0.0.1'') = 1
    \<and> limiterPerKey l' = Some \<lparr>capacity = 5, count = 5\<rparr>"
proof -
  have k: "configs ex_proxy (ServerKey (ex_client ex_key)) = Some ex_cfg"
    by (simp add: ex_defs)
  have ip: "limiterPerIP ex_cfg = Some \<lparr>col_capacity = 2, buckets = Map.empty\<rparr>"
    by (simp add: ex_defs)
  have key: "limiterPerKey ex_cfg = Some \<lparr>capacity = 5, count = 5\<rparr>"
    by (simp add: ex_defs)
  have grants: "count (bucket_of \<lparr>col_capacity = 2, buckets = Map.empty\<rparr> (IP (ex_client ex_key)))
      < capacity (bucket_of \<lparr>col_capacity = 2, buckets = Map.empty\<rparr> (IP (ex_client ex_key)))"
    by (simp add: bucket_of_def)
  have refuses: "capacity \<lparr>capacity = 5, count = 5\<rparr> \<le> count \<lparr>capacity = 5, count = 5\<rparr>"
    by simp
  from per_ip_debited_before_per_key [OF k ip key grants refuses, of "[42]" QGetTime]
  obtain s' l' c' where
    "handleRequest ex_proxy (ex_client ex_key) (MessageQuery [42] (LiteServerQuery QGetTime))
        = (s', ReturnSend (MessageAnswer [42] (RLSError \<lparr>Code = 429, Text = ''too many requests''\<rparr>)))"
    and "configs s' (ServerKey (ex_client ex_key)) = Some l'"
    and "limiterPerIP l' = Some c'"
    and "count (bucket_of c' (IP (ex_client ex_key)))
          = count (bucket_of \<lparr>col_capacity = 2, buckets = Map.empty\<rparr> (IP (ex_client ex_key))) + 1"
    and "limiterPerKey l' = Some \<lparr>capacity = 5, count = 5\<rparr>"
    by blast
  then show ?thesis
    by (auto simp: ex_client_def bucket_of_def)
qed

section \<open>The direct proxy\<close>

text \<open>
  C7. A query that reaches the direct proxy (in the only-proxy mode, or when the switch
  over its type leaves the response nil) is answered with the backend's \<^verbatim>\<open>LSError\<close>
  when the backend call fails with one, with \<^verbatim>\<open>LSError{502, "backend node timeout"}\<close>
  when it fails with any other error, and with the backend's response when it succeeds.
\<close>

theorem path_p_forwarding:
  assumes "only \<and> q' = q
       \<or> \<not> only \<and> (\<exists>cs0. wait_master env q = Proceed q' cs0)
                 \<and> (\<exists>h cs1. dispatch env q' = Some (None, h, cs1))"
  shows "\<exists>out hit cs.
      task env only m_ID q = Some ([MessageAnswer m_ID out], hit, cs)
    \<and> (\<forall>ls. QueryLiteserver env q' = Inl (ELSError ls) \<longrightarrow> out = RLSError ls)
    \<and> (\<forall>m. QueryLiteserver env q' = Inl (EOther m)
           \<longrightarrow> out = RLSError \<lparr>Code = 502, Text = ''backend node timeout''\<rparr>)
    \<and> (\<forall>V. QueryLiteserver env q' = Inr V \<longrightarrow> out = V)"
  using assms
  unfolding task_def direct_proxy_def
  by (auto split: sum.splits error.splits)

theorem path_p_forwarding_witness:
  "wait_master ex_env (QGetConfigAll [0]) = Proceed (QGetConfigAll [0]) []
   \<and> dispatch ex_env (QGetConfigAll [0]) = Some (None, ''backend'', [])
   \<and> (\<exists>hit cs. task ex_env False [42] (QGetConfigAll [0])
         = Some ([MessageAnswer [42] (RBackend ''liteServer.configInfo'' [11])], hit, cs))
   \<and> (\<exists>hit cs. task ex_env_backend_lserror True [42] (QGetConfigAll [0])
         = Some ([MessageAnswer [42] (RLSError ex_not_found)], hit, cs))
   \<and> (\<exists>hit cs. task ex_env_backend_down True [42] QGetTime
         = Some ([MessageAnswer [42] (RLSError \<lparr>Code = 502, Text = ''backend node timeout''\<rparr>)], hit, cs))"
proof -
  have w: "wait_master ex_env (QGetConfigAll [0]) = Proceed (QGetConfigAll [0]) []"
    by (simp add: wait_master_def)
  have d: "dispatch ex_env (QGetConfigAll [0]) = Some (None, ''backend'', [])"
    by (simp add: dispatch_def hit_defs)
  have routed: "False \<and> QGetConfigAll [0] = QGetConfigAll [0]
       \<or> \<not> False \<and> (\<exists>cs0. wait_master ex_env (QGetConfigAll [0]) = Proceed (QGetConfigAll [0]) cs0)
                 \<and> (\<exists>h cs1. dispatch ex_env (QGetConfigAll [0]) = Some (None, h, cs1))"
    using w d by simp
  have b1: "QueryLiteserver ex_env (QGetConfigAll [0]) = Inr (RBackend ''liteServer.configInfo'' [11])"
    by (simp add: ex_defs)
  have b2: "QueryLiteserver ex_env_backend_lserror (QGetConfigAll [0]) = Inl (ELSError ex_not_found)"
    by (simp add: ex_defs)
  have b3: "QueryLiteserver ex_env_backend_down QGetTime = Inl (EOther ''context deadline exceeded'')"
    by (simp add: ex_defs)
  from path_p_forwarding [OF routed, of "[42]"] b1
  have c1: "\<exists>hit cs. task ex_env False [42] (QGetConfigAll [0])
         = Some ([MessageAnswer [42] (RBackend ''liteServer.configInfo'' [11])], hit, cs)"
    by auto
  from path_p_forwarding [of True "QGetConfigAll [0]" "QGetConfigAll [0]" ex_env_backend_lserror "[42]"] b2
  have c2: "\<exists>hit cs. task ex_env_backend_lserror True [42] (QGetConfigAll [0])
         = Some ([MessageAnswer [42] (RLSError ex_not_found)], hit, cs)"
    by auto
  from path_p_forwarding [of True QGetTime QGetTime ex_env_backend_down "[42]"] b3
  have c3: "\<exists>hit cs. task ex_env_backend_down True [42] QGetTime
         = Some ([MessageAnswer [42] (RLSError \<lparr>Code = 502, Text = ''backend node timeout''\<rparr>)], hit, cs)"
    by auto
  from w d c1 c2 c3 show ?thesis
    by blast
qed

section \<open>The library walk\<close>

text \<open>
  C9, as the code has it. \<^verbatim>\<open>findLibs\<close> walks the cell depth first, left to right. It
  stops at a library-type cell that has no references and takes the 256 bits after the
  first 8 as its hash; it descends into the references of every other cell, a
  library-type cell with references among them, and reads none of their data bits. The
  result is the list of the hashes of the cells it stopped at; the walk panics when one
  of them holds fewer than 264 bits.
\<close>

theorem findLibs_library_leaves:
  "findLibs code =
     (if \<forall>c \<in> set (library_leaves code). 264 \<le> length (bits c)
      then Some (map library_hash (library_leaves code))
      else None)"
proof (induction code rule: findLibs.induct)
  case (1 t bs rs)
  show ?case
  proof (cases "length rs = 0 \<and> t = LibraryCellType")
    case True
    then show ?thesis
      by (auto simp: MustLoadSlice_def library_hash_def)
  next
    case False
    have ih: "\<And>r. r \<in> set rs \<Longrightarrow>
        findLibs r = (if \<forall>c \<in> set (library_leaves r). 264 \<le> length (bits c)
                      then Some (map library_hash (library_leaves r)) else None)"
      using "1.IH" False by simp
    have none: "None \<in> set (map findLibs rs)
        \<longleftrightarrow> \<not> (\<forall>r \<in> set rs. \<forall>c \<in> set (library_leaves r). 264 \<le> length (bits c))"
      using ih by (auto simp: image_iff split: if_splits)
    have some: "\<forall>r \<in> set rs. \<forall>c \<in> set (library_leaves r). 264 \<le> length (bits c)
        \<Longrightarrow> concat (map the (map findLibs rs))
            = map library_hash (concat (map library_leaves rs))"
      using ih by (induction rs) auto
    from False have "findLibs (Cell t bs rs) = append_all [] (map findLibs rs)"
      by auto
    with False none some show ?thesis
      by (auto simp: append_all_map simp del: findLibs.simps)
  qed
qed

theorem findLibs_library_leaves_witness:
  "library_leaves ex_code = [Cell LibraryCellType (replicate 264 True) []]
   \<and> findLibs ex_code = Some [replicate 32 255]"
proof -
  have leaves: "library_leaves ex_code = [Cell LibraryCellType (replicate 264 True) []]"
    by (simp add: ex_code_def)
  have h: "library_hash (Cell LibraryCellType (replicate 264 True) []) = replicate 32 255"
    by code_simp
  from findLibs_library_leaves [of ex_code] leaves h show ?thesis
    by simp
qed

text \<open>
  A library-type cell that has a reference: the walk reads the hash of the referenced
  cell and not that of the cell itself, which the walk of the specification returns.
\<close>

theorem findLibs_spec_counterexample:
  "GetType ex_lib_with_ref = LibraryCellType
   \<and> findLibs ex_lib_with_ref = Some [replicate 32 255]
   \<and> spec_findLibs ex_lib_with_ref = [replicate 32 0]"
  by code_simp

end
